theory Spec2Isabelle
  imports Complex_Main
begin

section \<open>The anomaly module: data model\<close>

text \<open>
  The source is \<^verbatim>\<open>anomalib/core/model/anomaly_module.py\<close>: the class
  \<^verbatim>\<open>AnomalyModule\<close>, a set of lifecycle hooks over a results aggregator and a threshold
  helper. Exceptions are values of \<open>error\<close>; a hook that mutates an object returns the
  object's state after the call together with the exception it raised, if any.

  Tensor elements are real numbers: the comparison \<^verbatim>\<open>>=\<close> and the maximum are exact on
  finite floats, so nothing is rounded in the operations used here; NaN and the
  narrowing of \<^verbatim>\<open>torch.Tensor([x])\<close> to single precision are outside the model.
\<close>

datatype error =
    NotImplementedError
  | KeyError string
  | IndexError
  | AttributeError
  | TypeError
  | TorchError
  | CollaboratorError

text \<open>
  A tensor is its shape and its elements in row-major order; \<open>wf_tensor\<close> says that the
  two agree.
\<close>

record 'a tensor =
  shape :: "nat list"
  elems :: "'a list"

definition wf_tensor :: "'a tensor \<Rightarrow> bool" where
  "wf_tensor t = (length (elems t) = prod_list (shape t))"

text \<open>
  A value of the batch-output dictionary: a numeric tensor, a boolean tensor, or an
  object that is no tensor at all (a list of strings, such as image paths).
\<close>

datatype pyval =
    FloatTensor "real tensor"
  | BoolTensor "bool tensor"
  | StrList "string list"

type_synonym outputs = "string \<rightharpoonup> pyval"

subsection \<open>Tensor operations used by the module\<close>

text \<open>\<^verbatim>\<open>torch.Tensor([x])\<close>: a one-element tensor of shape \<open>[1]\<close>.\<close>

definition Tensor1 :: "'a \<Rightarrow> 'a tensor" where
  "Tensor1 x = \<lparr>shape = [1], elems = [x]\<rparr>"

text \<open>\<^verbatim>\<open>t.item()\<close>: the single element of a one-element tensor; it raises otherwise.\<close>

definition item :: "'a tensor \<Rightarrow> error + 'a" where
  "item t = (case elems t of [x] \<Rightarrow> Inr x | _ \<Rightarrow> Inl TorchError)"

text \<open>\<^verbatim>\<open>t.shape[0]\<close>: indexing the empty shape of a 0-dimensional tensor raises.\<close>

definition shape0 :: "'a tensor \<Rightarrow> error + nat" where
  "shape0 t = (case shape t of [] \<Rightarrow> Inl IndexError | n # _ \<Rightarrow> Inr n)"

text \<open>
  \<^verbatim>\<open>t.reshape(n, -1)\<close>: the second dimension is inferred. The library accepts the shape
  when the number of elements equals \<open>n\<close> or is a multiple of a positive \<open>n\<close>, and then
  refuses to infer a dimension next to \<open>n = 0\<close>.
\<close>

definition reshape_rows :: "nat \<Rightarrow> 'a tensor \<Rightarrow> error + 'a tensor" where
  "reshape_rows n t =
     (let numel = prod_list (shape t) in
      if numel = n \<or> (0 < n \<and> numel mod n = 0) then
        (if n = 0 then Inl TorchError
         else Inr \<lparr>shape = [n, numel div n], elems = elems t\<rparr>)
      else Inl TorchError)"

text \<open>The maximum of a non-empty list, taken from the left.\<close>

definition reduce_max :: "'a::linorder list \<Rightarrow> 'a" where
  "reduce_max xs = fold max (tl xs) (hd xs)"

text \<open>
  \<^verbatim>\<open>t.max(axis=1).values\<close>: dimension 1 is reduced. For a shape \<open>n # m # rest\<close> the
  result has shape \<open>n # rest\<close>; a tensor with fewer than two dimensions has no dimension
  1, and a dimension of size 0 cannot be reduced.
\<close>

definition max_axis1 :: "'a::linorder tensor \<Rightarrow> error + 'a tensor" where
  "max_axis1 t =
     (case shape t of
        n # m # rest \<Rightarrow>
          (if m = 0 then Inl TorchError
           else let r = prod_list rest in
             Inr \<lparr>shape = n # rest,
                  elems = map (\<lambda>p. reduce_max
                                 (map (\<lambda>j. elems t ! (((p div r) * m + j) * r + p mod r)) [0..<m]))
                              [0..<n * r]\<rparr>)
      | _ \<Rightarrow> Inl IndexError)"

text \<open>
  \<^verbatim>\<open>a.reshape(a.shape[0], -1).max(axis=1).values\<close> on a tensor, in the order Python
  evaluates it.
\<close>

definition sample_max :: "'a::linorder tensor \<Rightarrow> error + 'a tensor" where
  "sample_max a =
     (case shape0 a of
        Inl e \<Rightarrow> Inl e
      | Inr n \<Rightarrow>
          (case reshape_rows n a of
             Inl e \<Rightarrow> Inl e
           | Inr t \<Rightarrow> max_axis1 t))"

text \<open>The same expression on a dictionary value: a list has no \<^verbatim>\<open>reshape\<close>.\<close>

fun anomaly_map_max :: "pyval \<Rightarrow> error + pyval" where
  "anomaly_map_max (FloatTensor a) =
     (case sample_max a of Inl e \<Rightarrow> Inl e | Inr s \<Rightarrow> Inr (FloatTensor s))"
| "anomaly_map_max (BoolTensor a) =
     (case sample_max a of Inl e \<Rightarrow> Inl e | Inr s \<Rightarrow> Inr (BoolTensor s))"
| "anomaly_map_max (StrList l) = Inl AttributeError"

text \<open>
  \<^verbatim>\<open>v >= x\<close> for a Python float \<open>x\<close>: elementwise on a tensor (a boolean element
  counts as 0 or 1), a type error on a list.
\<close>

fun ge_scalar :: "pyval \<Rightarrow> real \<Rightarrow> error + pyval" where
  "ge_scalar (FloatTensor s) x =
     Inr (BoolTensor \<lparr>shape = shape s, elems = map (\<lambda>v. x \<le> v) (elems s)\<rparr>)"
| "ge_scalar (BoolTensor s) x =
     Inr (BoolTensor \<lparr>shape = shape s, elems = map (\<lambda>b. x \<le> of_bool b) (elems s)\<rparr>)"
| "ge_scalar (StrList l) x = Inl TypeError"

subsection \<open>The module and its collaborators\<close>

text \<open>
  The results aggregator is an instance of one of two classes; its contents \<open>'r\<close> are
  opaque to the module.
\<close>

datatype 'r results = ClassificationResults 'r | SegmentationResults 'r

record 'r anomaly_module =
  hparams :: "string \<times> bool \<times> real"
  adaptive_threshold :: bool
  threshold :: "real tensor"
  results :: "'r results"
  logged :: "(string \<times> real) list"

text \<open>
  What the module calls and does not define: the aggregator's constructors, methods
  and attributes, the threshold helper, and the subclass's \<^verbatim>\<open>validation_step\<close>. A method
  of the aggregator returns the aggregator's state after the call and the exception it
  raised, if any; \<open>'a\<close> is the array type of the stored labels and scores, \<open>'b\<close> the type
  of a batch.
\<close>

record ('r, 'a, 'b) collaborators =
  new_classification :: "'r"
  new_segmentation :: "'r"
  store_outputs :: "outputs list \<Rightarrow> 'r results \<Rightarrow> 'r results \<times> error option"
  true_labels :: "'r results \<Rightarrow> 'a"
  pred_scores :: "'r results \<Rightarrow> 'a"
  evaluate :: "real \<Rightarrow> 'r results \<Rightarrow> 'r results \<times> error option"
  performance :: "'r results \<Rightarrow> (string \<times> real) list"
  compute_threshold_and_f1_score :: "'a \<Rightarrow> 'a \<Rightarrow> error + real \<times> real"
  validation_step :: "'r anomaly_module \<Rightarrow> 'b \<Rightarrow> int \<Rightarrow> error + outputs"

section \<open>The hooks\<close>

text \<open>
  \<^verbatim>\<open>__init__\<close>: the hyperparameters are saved, the flag and the threshold buffer are
  set, and the task string selects the aggregator; any other string raises.
\<close>

definition new_module :: "string \<Rightarrow> bool \<Rightarrow> real \<Rightarrow> 'r results \<Rightarrow> 'r anomaly_module" where
  "new_module task adaptive default_threshold res =
     \<lparr>hparams = (task, adaptive, default_threshold),
      adaptive_threshold = adaptive,
      threshold = Tensor1 default_threshold,
      results = res,
      logged = []\<rparr>"

definition init ::
  "('r, 'a, 'b) collaborators \<Rightarrow> string \<Rightarrow> bool \<Rightarrow> real \<Rightarrow> error + 'r anomaly_module" where
  "init E task adaptive default_threshold =
     (if task = ''classification'' then
        Inr (new_module task adaptive default_threshold
               (ClassificationResults (new_classification E)))
      else if task = ''segmentation'' then
        Inr (new_module task adaptive default_threshold
               (SegmentationResults (new_segmentation E)))
      else Inl NotImplementedError)"

text \<open>
  \<^verbatim>\<open>_post_process\<close>: the dictionary is updated in place, so the result is the dictionary
  after the call and the exception raised, if any. Without an exception the return
  value is that same dictionary.
\<close>

definition derive_scores :: "outputs \<Rightarrow> outputs \<times> error option" where
  "derive_scores outputs =
     (if outputs ''pred_scores'' = None \<and> outputs ''anomaly_maps'' \<noteq> None then
        (case anomaly_map_max (the (outputs ''anomaly_maps'')) of
           Inl e \<Rightarrow> (outputs, Some e)
         | Inr s \<Rightarrow> (outputs(''pred_scores'' \<mapsto> s), None))
      else (outputs, None))"

definition label_scores :: "'r anomaly_module \<Rightarrow> outputs \<Rightarrow> outputs \<times> error option" where
  "label_scores self outputs =
     (case outputs ''pred_scores'' of
        None \<Rightarrow> (outputs, Some (KeyError ''pred_scores''))
      | Some sc \<Rightarrow>
          (case item (threshold self) of
             Inl e \<Rightarrow> (outputs, Some e)
           | Inr x \<Rightarrow>
               (case ge_scalar sc x of
                  Inl e \<Rightarrow> (outputs, Some e)
                | Inr lb \<Rightarrow> (outputs(''pred_labels'' \<mapsto> lb), None))))"

definition post_process ::
  "'r anomaly_module \<Rightarrow> outputs \<Rightarrow> bool \<Rightarrow> outputs \<times> error option" where
  "post_process self outputs predict_labels =
     (case derive_scores outputs of
        (outputs1, Some e) \<Rightarrow> (outputs1, Some e)
      | (outputs1, None) \<Rightarrow>
          (if predict_labels then label_scores self outputs1 else (outputs1, None)))"

text \<open>The step hooks.\<close>

definition predict_step ::
  "('r, 'a, 'b) collaborators \<Rightarrow> 'r anomaly_module \<Rightarrow> 'b \<Rightarrow> int \<Rightarrow> int \<Rightarrow> error + outputs" where
  "predict_step E self batch batch_idx dataloader_idx =
     (case validation_step E self batch batch_idx of
        Inl e \<Rightarrow> Inl e
      | Inr out \<Rightarrow>
          (case post_process self out True of
             (out1, Some e) \<Rightarrow> Inl e
           | (out1, None) \<Rightarrow> Inr out1))"

definition test_step ::
  "('r, 'a, 'b) collaborators \<Rightarrow> 'r anomaly_module \<Rightarrow> 'b \<Rightarrow> int \<Rightarrow> error + outputs" where
  "test_step E self batch idx = validation_step E self batch idx"

definition validation_step_end ::
  "'r anomaly_module \<Rightarrow> outputs \<Rightarrow> outputs \<times> error option" where
  "validation_step_end self val_step_outputs = post_process self val_step_outputs False"

definition test_step_end ::
  "'r anomaly_module \<Rightarrow> outputs \<Rightarrow> outputs \<times> error option" where
  "test_step_end self test_step_outputs = post_process self test_step_outputs False"

text \<open>
  \<^verbatim>\<open>_log_metrics\<close>: one \<^verbatim>\<open>self.log\<close> call for each item of the performance dictionary,
  in its order; a call is recorded in \<open>logged\<close>.
\<close>

definition self_log :: "string \<Rightarrow> real \<Rightarrow> 'r anomaly_module \<Rightarrow> 'r anomaly_module" where
  "self_log name v self = self\<lparr>logged := logged self @ [(name, v)]\<rparr>"

fun log_items :: "(string \<times> real) list \<Rightarrow> 'r anomaly_module \<Rightarrow> 'r anomaly_module" where
  "log_items [] self = self"
| "log_items ((name, v) # rest) self = log_items rest (self_log name v self)"

definition log_metrics ::
  "('r, 'a, 'b) collaborators \<Rightarrow> 'r anomaly_module \<Rightarrow> 'r anomaly_module" where
  "log_metrics E self = log_items (performance E (results self)) self"

text \<open>
  The tail shared by both epoch hooks: \<^verbatim>\<open>self.results.evaluate(self.threshold.item())\<close>
  and \<^verbatim>\<open>self._log_metrics()\<close>.
\<close>

definition evaluate_and_log ::
  "('r, 'a, 'b) collaborators \<Rightarrow> 'r anomaly_module \<Rightarrow> 'r anomaly_module \<times> error option" where
  "evaluate_and_log E self =
     (case item (threshold self) of
        Inl e \<Rightarrow> (self, Some e)
      | Inr x \<Rightarrow>
          (case evaluate E x (results self) of
             (r, Some e) \<Rightarrow> (self\<lparr>results := r\<rparr>, Some e)
           | (r, None) \<Rightarrow> (log_metrics E (self\<lparr>results := r\<rparr>), None)))"

text \<open>The adaptive branch of \<^verbatim>\<open>validation_epoch_end\<close>.\<close>

definition adapt_threshold ::
  "('r, 'a, 'b) collaborators \<Rightarrow> 'r anomaly_module \<Rightarrow> 'r anomaly_module \<times> error option" where
  "adapt_threshold E self =
     (if adaptive_threshold self then
        (case compute_threshold_and_f1_score E
                (true_labels E (results self)) (pred_scores E (results self)) of
           Inl e \<Rightarrow> (self, Some e)
         | Inr (thr, f1) \<Rightarrow> (self\<lparr>threshold := Tensor1 thr\<rparr>, None))
      else (self, None))"

definition validation_epoch_end ::
  "('r, 'a, 'b) collaborators \<Rightarrow> 'r anomaly_module \<Rightarrow> outputs list \<Rightarrow>
     'r anomaly_module \<times> error option" where
  "validation_epoch_end E self outs =
     (case store_outputs E outs (results self) of
        (r, Some e) \<Rightarrow> (self\<lparr>results := r\<rparr>, Some e)
      | (r, None) \<Rightarrow>
          (case adapt_threshold E (self\<lparr>results := r\<rparr>) of
             (self1, Some e) \<Rightarrow> (self1, Some e)
           | (self1, None) \<Rightarrow> evaluate_and_log E self1))"

definition test_epoch_end ::
  "('r, 'a, 'b) collaborators \<Rightarrow> 'r anomaly_module \<Rightarrow> outputs list \<Rightarrow>
     'r anomaly_module \<times> error option" where
  "test_epoch_end E self outs =
     (case store_outputs E outs (results self) of
        (r, Some e) \<Rightarrow> (self\<lparr>results := r\<rparr>, Some e)
      | (r, None) \<Rightarrow> evaluate_and_log E (self\<lparr>results := r\<rparr>))"

section \<open>Reading a dictionary value\<close>

text \<open>
  The elements of a tensor value as Python floats (a boolean counts as 0 or 1), its
  shape, and its well-formedness. A list of strings has no elements and no shape.
\<close>

fun scores_of :: "pyval \<Rightarrow> real list" where
  "scores_of (FloatTensor s) = elems s"
| "scores_of (BoolTensor s) = map of_bool (elems s)"
| "scores_of (StrList l) = []"

fun shape_of :: "pyval \<Rightarrow> nat list option" where
  "shape_of (FloatTensor s) = Some (shape s)"
| "shape_of (BoolTensor s) = Some (shape s)"
| "shape_of (StrList l) = None"

fun wf_pyval :: "pyval \<Rightarrow> bool" where
  "wf_pyval (FloatTensor s) = wf_tensor s"
| "wf_pyval (BoolTensor s) = wf_tensor s"
| "wf_pyval (StrList l) = True"

text \<open>
  The labels of a dictionary follow its scores under the threshold \<open>x\<close>: both keys are
  present, the labels are a boolean tensor of the shape of the scores, and each label
  is true exactly when its score is at least \<open>x\<close>.
\<close>

definition labels_follow :: "real \<Rightarrow> outputs \<Rightarrow> bool" where
  "labels_follow x out =
     (case (out ''pred_scores'', out ''pred_labels'') of
        (Some sc, Some (BoolTensor lb)) \<Rightarrow>
          shape_of sc = Some (shape lb) \<and>
          length (elems lb) = length (scores_of sc) \<and>
          list_all2 (\<lambda>l v. l = (x \<le> v)) (elems lb) (scores_of sc)
      | _ \<Rightarrow> False)"

section \<open>A sample instantiation of the collaborators\<close>

text \<open>
  An aggregator that keeps the scores it was given, a helper that returns the first
  stored score as the threshold, and a \<^verbatim>\<open>validation_step\<close> that returns its batch. It
  serves to evaluate the hooks on concrete inputs.
\<close>

fun contents :: "'r results \<Rightarrow> 'r" where
  "contents (ClassificationResults r) = r"
| "contents (SegmentationResults r) = r"

definition batch_scores :: "outputs \<Rightarrow> real list" where
  "batch_scores out = (case out ''pred_scores'' of None \<Rightarrow> [] | Some v \<Rightarrow> scores_of v)"

definition first_score :: "real list \<Rightarrow> real list \<Rightarrow> error + real \<times> real" where
  "first_score labels scores =
     (case scores of [] \<Rightarrow> Inl CollaboratorError | x # _ \<Rightarrow> Inr (x, 1))"

definition sample_collaborators :: "(real list, real list, outputs) collaborators" where
  "sample_collaborators =
     \<lparr>new_classification = [],
      new_segmentation = [],
      store_outputs = (\<lambda>outs r. (map_results (\<lambda>xs. xs @ concat (map batch_scores outs)) r, None)),
      true_labels = contents,
      pred_scores = contents,
      evaluate = (\<lambda>x r. (r, None)),
      performance = (\<lambda>r. [(''count'', real (length (contents r)))]),
      compute_threshold_and_f1_score = first_score,
      validation_step = (\<lambda>self batch idx. Inr batch)\<rparr>"

definition sample_module :: "bool \<Rightarrow> real list anomaly_module" where
  "sample_module adaptive =
     new_module ''classification'' adaptive 4 (ClassificationResults [])"

definition sample_maps :: "real tensor" where
  "sample_maps = \<lparr>shape = [2, 2, 1], elems = [1, 5, 3, 2]\<rparr>"

definition sample_outputs :: outputs where
  "sample_outputs = [''anomaly_maps'' \<mapsto> FloatTensor sample_maps]"

definition scored_outputs :: outputs where
  "scored_outputs = [''pred_scores'' \<mapsto> FloatTensor \<lparr>shape = [2], elems = [5, 3]\<rparr>]"

text \<open>The threshold buffer holds a single scalar: shape \<open>[1]\<close>, one element.\<close>

definition single_scalar :: "'a tensor \<Rightarrow> bool" where
  "single_scalar t = (shape t = [1] \<and> length (elems t) = 1)"

text \<open>
  Further sample dictionaries: the one \<^verbatim>\<open>predict_step\<close> returns on \<open>sample_outputs\<close>
  under the threshold 4, one with neither scores nor anomaly maps, and one with both.
\<close>

definition labelled_outputs :: outputs where
  "labelled_outputs =
     sample_outputs(''pred_scores'' \<mapsto> FloatTensor \<lparr>shape = [2], elems = [5, 3]\<rparr>,
                    ''pred_labels'' \<mapsto> BoolTensor \<lparr>shape = [2], elems = [True, False]\<rparr>)"

definition plain_outputs :: outputs where
  "plain_outputs = [''image_path'' \<mapsto> StrList [''a.png'', ''b.png'']]"

definition full_outputs :: outputs where
  "full_outputs = sample_outputs(''pred_scores'' \<mapsto> FloatTensor \<lparr>shape = [2], elems = [0, 9]\<rparr>)"

lemmas sample_defs =
  sample_collaborators_def sample_module_def new_module_def scored_outputs_def
  batch_scores_def first_score_def Tensor1_def item_def
  validation_epoch_end_def test_epoch_end_def adapt_threshold_def evaluate_and_log_def
  log_metrics_def self_log_def

lemmas tensor_defs =
  sample_max_def shape0_def reshape_rows_def max_axis1_def reduce_max_def Let_def

lemmas hook_defs =
  post_process_def derive_scores_def label_scores_def predict_step_def
  sample_outputs_def sample_maps_def labelled_outputs_def plain_outputs_def full_outputs_def

section \<open>The threshold across the epoch hooks\<close>


lemma log_items_frame:
  "threshold (log_items xs self) = threshold self \<and>
   adaptive_threshold (log_items xs self) = adaptive_threshold self \<and>
   results (log_items xs self) = results self"
  by (induction xs self rule: log_items.induct) (simp_all add: self_log_def)

lemma log_metrics_threshold: "threshold (log_metrics E self) = threshold self"
  by (simp add: log_metrics_def log_items_frame)

lemma evaluate_and_log_threshold:
  "threshold (fst (evaluate_and_log E self)) = threshold self"
  by (simp add: evaluate_and_log_def log_metrics_threshold
           split: sum.splits prod.splits option.splits)

lemma adapt_threshold_off:
  "\<not> adaptive_threshold self \<Longrightarrow> adapt_threshold E self = (self, None)"
  by (simp add: adapt_threshold_def)


lemma adapt_threshold_cases:
  "threshold (fst (adapt_threshold E self)) = threshold self \<or>
   (adaptive_threshold self \<and> (\<exists>thr. threshold (fst (adapt_threshold E self)) = Tensor1 thr))"
  by (auto simp: adapt_threshold_def split: sum.splits prod.splits)



text \<open>
  C2. With adaptive-threshold mode off, the threshold after \<^verbatim>\<open>validation_epoch_end\<close>
  is the threshold before it, whatever the outputs and whether or not a collaborator
  raised.
\<close>

theorem validation_epoch_end_fixed_threshold:
  assumes "\<not> adaptive_threshold self"
  shows "threshold (fst (validation_epoch_end E self outs)) = threshold self"
  using assms
  by (simp add: validation_epoch_end_def adapt_threshold_off evaluate_and_log_threshold
           split: prod.splits option.splits)

theorem validation_epoch_end_fixed_threshold_witness:
  "\<not> adaptive_threshold (sample_module False) \<and>
   threshold (fst (validation_epoch_end sample_collaborators (sample_module False) [scored_outputs]))
     = Tensor1 4"
proof -
  have h: "\<not> adaptive_threshold (sample_module False)"
    by (simp add: sample_module_def new_module_def)
  show ?thesis
    using h validation_epoch_end_fixed_threshold [OF h, of sample_collaborators "[scored_outputs]"]
    by (simp add: sample_module_def new_module_def)
qed

lemma single_scalar_Tensor1: "single_scalar (Tensor1 x)"
  by (simp add: single_scalar_def Tensor1_def)

lemma test_epoch_end_threshold:
  "threshold (fst (test_epoch_end E self outs)) = threshold self"
proof (cases "store_outputs E outs (results self)")
  case (Pair r e)
  with evaluate_and_log_threshold [of E "self\<lparr>results := r\<rparr>"] show ?thesis
    by (cases e) (simp_all add: test_epoch_end_def)
qed

lemma validation_epoch_end_threshold_cases:
  "threshold (fst (validation_epoch_end E self outs)) = threshold self \<or>
   (adaptive_threshold self \<and>
    (\<exists>thr. threshold (fst (validation_epoch_end E self outs)) = Tensor1 thr))"
proof (cases "store_outputs E outs (results self)")
  case (Pair r e)
  show ?thesis
  proof (cases e)
    case (Some x)
    with Pair show ?thesis by (simp add: validation_epoch_end_def)
  next
    case None
    let ?s = "self\<lparr>results := r\<rparr>"
    obtain self1 e1 where a: "adapt_threshold E ?s = (self1, e1)"
      by (cases "adapt_threshold E ?s")
    have "threshold (fst (validation_epoch_end E self outs)) = threshold self1"
      using Pair None a evaluate_and_log_threshold [of E self1]
      by (simp add: validation_epoch_end_def split: option.splits)
    with adapt_threshold_cases [of E ?s] a show ?thesis by auto
  qed
qed

text \<open>
  C7. The threshold is updated only by \<^verbatim>\<open>validation_epoch_end\<close> and only in adaptive
  mode: \<^verbatim>\<open>test_epoch_end\<close> leaves it as it was, whatever the flag; if
  \<^verbatim>\<open>validation_epoch_end\<close> changes it, the flag is set and the new value is the
  one-element tensor of the single assignment in the adaptive branch. The threshold is
  a single scalar after construction, and both epoch hooks keep it one.
\<close>

theorem threshold_updates:
  "threshold (fst (test_epoch_end E self outs)) = threshold self \<and>
   (threshold (fst (validation_epoch_end E self outs)) \<noteq> threshold self \<longrightarrow>
      adaptive_threshold self \<and>
      (\<exists>thr. threshold (fst (validation_epoch_end E self outs)) = Tensor1 thr)) \<and>
   (single_scalar (threshold self) \<longrightarrow>
      single_scalar (threshold (fst (validation_epoch_end E self outs))) \<and>
      single_scalar (threshold (fst (test_epoch_end E self outs)))) \<and>
   (init E task adaptive default_threshold = Inr self \<longrightarrow> single_scalar (threshold self))"
proof (intro conjI impI)
  show t: "threshold (fst (test_epoch_end E self outs)) = threshold self"
    by (rule test_epoch_end_threshold)
  assume s: "single_scalar (threshold self)"
  with t show "single_scalar (threshold (fst (test_epoch_end E self outs)))" by simp
  from s validation_epoch_end_threshold_cases [of E self outs]
  show "single_scalar (threshold (fst (validation_epoch_end E self outs)))"
    by (auto simp: single_scalar_Tensor1)
next
  assume "threshold (fst (validation_epoch_end E self outs)) \<noteq> threshold self"
  with validation_epoch_end_threshold_cases [of E self outs]
  show "adaptive_threshold self"
   and "\<exists>thr. threshold (fst (validation_epoch_end E self outs)) = Tensor1 thr"
    by auto
next
  assume "init E task adaptive default_threshold = Inr self"
  then show "single_scalar (threshold self)"
    by (auto simp: init_def new_module_def single_scalar_Tensor1 split: if_splits)
qed

theorem threshold_updates_witness:
  "init sample_collaborators ''classification'' True 4 = Inr (sample_module True) \<and>
   single_scalar (threshold (sample_module True)) \<and>
   threshold (fst (validation_epoch_end sample_collaborators (sample_module True) [scored_outputs]))
     \<noteq> threshold (sample_module True) \<and>
   adaptive_threshold (sample_module True) \<and>
   single_scalar
     (threshold (fst (validation_epoch_end sample_collaborators (sample_module True) [scored_outputs]))) \<and>
   threshold (fst (test_epoch_end sample_collaborators (sample_module True) [scored_outputs]))
     = Tensor1 4"
proof -
  have h1: "init sample_collaborators ''classification'' True 4 = Inr (sample_module True)"
    by (simp add: init_def sample_module_def sample_collaborators_def)
  have h2: "threshold (fst (validation_epoch_end sample_collaborators (sample_module True)
                              [scored_outputs])) \<noteq> threshold (sample_module True)"
    by (simp add: sample_defs)
  have h3: "threshold (sample_module True) = Tensor1 4"
    by (simp add: sample_module_def new_module_def)
  from threshold_updates
         [of sample_collaborators "sample_module True" "[scored_outputs]" "''classification''" True 4]
       h1 h2 h3
  show ?thesis by simp
qed

section \<open>Construction\<close>

text \<open>
  C5. For every task string other than \<^verbatim>\<open>"classification"\<close> and
  \<^verbatim>\<open>"segmentation"\<close>, construction raises \<^verbatim>\<open>NotImplementedError\<close>; it returns no
  module.
\<close>

theorem init_rejects_unknown_task:
  assumes "task \<noteq> ''classification''" and "task \<noteq> ''segmentation''"
  shows "init E task adaptive default_threshold = Inl NotImplementedError"
  using assms by (simp add: init_def)

theorem init_rejects_unknown_task_witness:
  "''detection'' \<noteq> ''classification'' \<and> ''detection'' \<noteq> ''segmentation'' \<and>
   init sample_collaborators ''detection'' True 4 = Inl NotImplementedError"
proof -
  have h1: "''detection'' \<noteq> ''classification''" and h2: "''detection'' \<noteq> ''segmentation''"
    by simp_all
  from init_rejects_unknown_task [OF h1 h2, of sample_collaborators True 4] h1 h2
  show ?thesis by simp
qed

text \<open>
  C6. Construction with \<^verbatim>\<open>"classification"\<close> returns a module whose aggregator is a
  fresh \<^verbatim>\<open>ClassificationResults\<close> instance, and construction with
  \<^verbatim>\<open>"segmentation"\<close> one whose aggregator is a fresh \<^verbatim>\<open>SegmentationResults\<close>
  instance.
\<close>

theorem init_selects_results:
  "(\<exists>self. init E ''classification'' adaptive default_threshold = Inr self \<and>
            results self = ClassificationResults (new_classification E)) \<and>
   (\<exists>self. init E ''segmentation'' adaptive default_threshold = Inr self \<and>
            results self = SegmentationResults (new_segmentation E))"
  by (simp add: init_def new_module_def)

section \<open>Post-processing a batch\<close>

lemma derive_scores_frame:
  "k \<noteq> ''pred_scores'' \<Longrightarrow> fst (derive_scores out) k = out k"
  by (simp add: derive_scores_def split: sum.splits)

lemma derive_scores_present:
  "out ''pred_scores'' = Some v \<Longrightarrow> derive_scores out = (out, None)"
  by (simp add: derive_scores_def)

lemma derive_scores_neither:
  "out ''pred_scores'' = None \<Longrightarrow> out ''anomaly_maps'' = None \<Longrightarrow> derive_scores out = (out, None)"
  by (simp add: derive_scores_def)

lemma anomaly_map_max_no_KeyError: "anomaly_map_max v \<noteq> Inl (KeyError k)"
  by (cases v)
     (auto simp: sample_max_def shape0_def reshape_rows_def max_axis1_def Let_def
           split: sum.splits list.splits if_splits)

lemma derive_scores_no_KeyError: "snd (derive_scores out) \<noteq> Some (KeyError k)"
proof (cases "out ''pred_scores'' = None \<and> out ''anomaly_maps'' \<noteq> None")
  case False
  then have "derive_scores out = (out, None)"
    unfolding derive_scores_def by (simp only: if_False)
  then show ?thesis by simp
next
  case True
  then obtain v where v: "out ''anomaly_maps'' = Some v" by auto
  with True anomaly_map_max_no_KeyError [of v k] show ?thesis
    by (auto simp: derive_scores_def split: sum.splits)
qed

lemma derive_scores_ok_scores:
  "derive_scores out = (out1, None) \<Longrightarrow> out ''pred_scores'' \<noteq> None \<or> out ''anomaly_maps'' \<noteq> None
     \<Longrightarrow> out1 ''pred_scores'' \<noteq> None"
  by (auto simp: derive_scores_def split: sum.splits if_splits)

lemma ge_scalar_no_KeyError: "ge_scalar sc x \<noteq> Inl (KeyError k)"
  by (cases sc) simp_all

lemma item_no_KeyError: "item t \<noteq> Inl (KeyError k)"
  by (simp add: item_def split: list.splits)

lemma label_scores_no_KeyError:
  assumes "out ''pred_scores'' = Some sc"
  shows "snd (label_scores self out) \<noteq> Some (KeyError k)"
proof (cases "item (threshold self)")
  case (Inl e)
  with item_no_KeyError [of "threshold self" k] assms show ?thesis
    by (auto simp: label_scores_def)
next
  case (Inr x)
  with ge_scalar_no_KeyError [of sc x k] assms show ?thesis
    by (cases "ge_scalar sc x") (auto simp: label_scores_def)
qed

lemma label_scores_frame:
  "k \<noteq> ''pred_labels'' \<Longrightarrow> fst (label_scores self out) k = out k"
  by (simp add: label_scores_def split: sum.splits option.splits)

lemma ge_scalar_follow:
  "ge_scalar sc x = Inr lb \<Longrightarrow>
     \<exists>l. lb = BoolTensor l \<and> shape_of sc = Some (shape l) \<and>
         length (elems l) = length (scores_of sc) \<and>
         list_all2 (\<lambda>b v. b = (x \<le> v)) (elems l) (scores_of sc)"
  by (cases sc) (auto simp: list_all2_conv_all_nth)

lemma label_scores_follow:
  assumes "label_scores self out = (out', None)"
  shows "\<exists>x. item (threshold self) = Inr x \<and> labels_follow x out'"
proof -
  from assms obtain sc x lb where
    sc: "out ''pred_scores'' = Some sc" and x: "item (threshold self) = Inr x" and
    lb: "ge_scalar sc x = Inr lb" and out': "out' = out(''pred_labels'' \<mapsto> lb)"
    by (auto simp: label_scores_def split: option.splits sum.splits)
  from ge_scalar_follow [OF lb] sc out' have "labels_follow x out'"
    by (auto simp: labels_follow_def)
  with x show ?thesis by blast
qed

lemma post_process_labels:
  assumes "post_process self out True = (out', None)"
  shows "\<exists>x. item (threshold self) = Inr x \<and> labels_follow x out'"
proof -
  from assms obtain out1 where "label_scores self out1 = (out', None)"
    by (auto simp: post_process_def split: prod.splits option.splits)
  then show ?thesis by (rule label_scores_follow)
qed

lemma upt_0_2: "[0..<2] = [0, 1]"
  by (simp add: numeral_2_eq_2)

lemma sample_post_process:
  "post_process (sample_module False) sample_outputs True = (labelled_outputs, None)"
  by (simp add: hook_defs tensor_defs sample_defs upt_0_2)

text \<open>
  C3. When labels are predicted, that is when \<^verbatim>\<open>_post_process\<close> with
  \<^verbatim>\<open>predict_labels=True\<close> or \<^verbatim>\<open>predict_step\<close> returns, the returned dictionary holds
  scores and labels, and each label is true if and only if its score is greater than
  or equal to the current threshold of the module.
\<close>

theorem predicted_labels_follow_threshold:
  "(post_process self out True = (out', None) \<longrightarrow>
      (\<exists>x. item (threshold self) = Inr x \<and> labels_follow x out')) \<and>
   (predict_step E self batch batch_idx dl_idx = Inr out' \<longrightarrow>
      (\<exists>x. item (threshold self) = Inr x \<and> labels_follow x out'))"
proof (intro conjI impI)
  assume "post_process self out True = (out', None)"
  then show "\<exists>x. item (threshold self) = Inr x \<and> labels_follow x out'"
    by (rule post_process_labels)
next
  assume "predict_step E self batch batch_idx dl_idx = Inr out'"
  then obtain out0 where "post_process self out0 True = (out', None)"
    by (auto simp: predict_step_def split: sum.splits prod.splits option.splits)
  then show "\<exists>x. item (threshold self) = Inr x \<and> labels_follow x out'"
    by (rule post_process_labels)
qed

theorem predicted_labels_follow_threshold_witness:
  "post_process (sample_module False) sample_outputs True = (labelled_outputs, None) \<and>
   predict_step sample_collaborators (sample_module False) sample_outputs 0 0 = Inr labelled_outputs \<and>
   item (threshold (sample_module False)) = Inr 4 \<and>
   labels_follow 4 labelled_outputs"
proof -
  have h1: "post_process (sample_module False) sample_outputs True = (labelled_outputs, None)"
    by (rule sample_post_process)
  have h2: "predict_step sample_collaborators (sample_module False) sample_outputs 0 0
              = Inr labelled_outputs"
  proof -
    have "validation_step sample_collaborators (sample_module False) sample_outputs 0
            = Inr sample_outputs"
      by (simp add: sample_collaborators_def)
    then show ?thesis
      by (simp add: predict_step_def sample_post_process)
  qed
  have h3: "item (threshold (sample_module False)) = Inr 4"
    by (simp add: sample_defs)
  from predicted_labels_follow_threshold
         [of "sample_module False" sample_outputs labelled_outputs sample_collaborators
             sample_outputs 0 0] h1 h2
  obtain x where "item (threshold (sample_module False)) = Inr x" and "labels_follow x labelled_outputs"
    by blast
  with h3 have "labels_follow 4 labelled_outputs" by simp
  with h1 h2 h3 show ?thesis by simp
qed

text \<open>
  C8. \<^verbatim>\<open>_post_process\<close> changes at most the keys \<^verbatim>\<open>pred_scores\<close> and
  \<^verbatim>\<open>pred_labels\<close>: every other key keeps its value; scores that are present are kept,
  also next to an anomaly map; and with no scores, no anomaly map and no label
  prediction the dictionary is returned as it was, without an exception.
\<close>

theorem post_process_frame:
  "(k \<noteq> ''pred_scores'' \<and> k \<noteq> ''pred_labels'' \<longrightarrow>
      fst (post_process self out predict_labels) k = out k) \<and>
   (out ''pred_scores'' = Some v \<longrightarrow>
      fst (post_process self out predict_labels) ''pred_scores'' = Some v) \<and>
   (out ''pred_scores'' = None \<and> out ''anomaly_maps'' = None \<and> \<not> predict_labels \<longrightarrow>
      post_process self out predict_labels = (out, None))"
proof (intro conjI impI)
  assume k: "k \<noteq> ''pred_scores'' \<and> k \<noteq> ''pred_labels''"
  obtain out1 e1 where d: "derive_scores out = (out1, e1)" by (cases "derive_scores out")
  with k derive_scores_frame [of k out] have "out1 k = out k" by simp
  with d k label_scores_frame [of k self out1]
  show "fst (post_process self out predict_labels) k = out k"
    by (simp add: post_process_def split: option.splits)
next
  assume v: "out ''pred_scores'' = Some v"
  have "fst (label_scores self out) ''pred_scores'' = out ''pred_scores''"
    by (rule label_scores_frame) simp
  with v show "fst (post_process self out predict_labels) ''pred_scores'' = Some v"
    by (simp add: post_process_def derive_scores_present)
next
  assume "out ''pred_scores'' = None \<and> out ''anomaly_maps'' = None \<and> \<not> predict_labels"
  then show "post_process self out predict_labels = (out, None)"
    by (simp add: post_process_def derive_scores_neither)
qed

theorem post_process_frame_witness:
  "full_outputs ''pred_scores'' = Some (FloatTensor \<lparr>shape = [2], elems = [0, 9]\<rparr>) \<and>
   fst (post_process (sample_module False) full_outputs True) ''anomaly_maps''
     = Some (FloatTensor sample_maps) \<and>
   fst (post_process (sample_module False) full_outputs True) ''pred_scores''
     = Some (FloatTensor \<lparr>shape = [2], elems = [0, 9]\<rparr>) \<and>
   plain_outputs ''pred_scores'' = None \<and> plain_outputs ''anomaly_maps'' = None \<and>
   post_process (sample_module False) plain_outputs False = (plain_outputs, None)"
proof -
  have h1: "full_outputs ''pred_scores'' = Some (FloatTensor \<lparr>shape = [2], elems = [0, 9]\<rparr>)"
    and h2: "full_outputs ''anomaly_maps'' = Some (FloatTensor sample_maps)"
    and h3: "''anomaly_maps'' \<noteq> ''pred_scores'' \<and> ''anomaly_maps'' \<noteq> ''pred_labels''"
    and h4: "plain_outputs ''pred_scores'' = None \<and> plain_outputs ''anomaly_maps'' = None"
    by (simp_all add: full_outputs_def sample_outputs_def plain_outputs_def)
  from post_process_frame
         [of "''anomaly_maps''" "sample_module False" full_outputs True
             "FloatTensor \<lparr>shape = [2], elems = [0, 9]\<rparr>"]
       post_process_frame [of "''image_path''" "sample_module False" plain_outputs False "StrList []"]
       h1 h2 h3 h4
  show ?thesis by simp
qed

text \<open>
  C10. With neither scores nor anomaly maps in the dictionary, label prediction raises
  \<^verbatim>\<open>KeyError\<close> on \<^verbatim>\<open>pred_scores\<close>, in \<^verbatim>\<open>_post_process\<close> and so in
  \<^verbatim>\<open>predict_step\<close>; with at least one of the two keys present, no \<^verbatim>\<open>KeyError\<close> is
  raised.
\<close>

theorem label_prediction_key_error:
  "(out ''pred_scores'' = None \<and> out ''anomaly_maps'' = None \<longrightarrow>
      post_process self out True = (out, Some (KeyError ''pred_scores'')) \<and>
      (validation_step E self batch batch_idx = Inr out \<longrightarrow>
         predict_step E self batch batch_idx dl_idx = Inl (KeyError ''pred_scores''))) \<and>
   (out ''pred_scores'' \<noteq> None \<or> out ''anomaly_maps'' \<noteq> None \<longrightarrow>
      snd (post_process self out True) \<noteq> Some (KeyError k) \<and>
      (validation_step E self batch batch_idx = Inr out \<longrightarrow>
         predict_step E self batch batch_idx dl_idx \<noteq> Inl (KeyError k)))"
proof (intro conjI impI)
  assume n: "out ''pred_scores'' = None \<and> out ''anomaly_maps'' = None"
  then show p: "post_process self out True = (out, Some (KeyError ''pred_scores''))"
    by (simp add: post_process_def derive_scores_neither label_scores_def)
  assume "validation_step E self batch batch_idx = Inr out"
  with p show "predict_step E self batch batch_idx dl_idx = Inl (KeyError ''pred_scores'')"
    by (simp add: predict_step_def)
next
  assume a: "out ''pred_scores'' \<noteq> None \<or> out ''anomaly_maps'' \<noteq> None"
  show p: "snd (post_process self out True) \<noteq> Some (KeyError k)"
  proof (cases "derive_scores out")
    case (Pair out1 e1)
    show ?thesis
    proof (cases e1)
      case (Some e)
      with Pair derive_scores_no_KeyError [of out k] show ?thesis
        by (simp add: post_process_def)
    next
      case None
      with Pair a obtain sc where "out1 ''pred_scores'' = Some sc"
        by (auto dest: derive_scores_ok_scores)
      then have "snd (label_scores self out1) \<noteq> Some (KeyError k)"
        by (rule label_scores_no_KeyError)
      with Pair None show ?thesis by (simp add: post_process_def)
    qed
  qed
  assume "validation_step E self batch batch_idx = Inr out"
  with p show "predict_step E self batch batch_idx dl_idx \<noteq> Inl (KeyError k)"
    by (auto simp: predict_step_def split: prod.splits option.splits)
qed

theorem label_prediction_key_error_witness:
  "plain_outputs ''pred_scores'' = None \<and> plain_outputs ''anomaly_maps'' = None \<and>
   validation_step sample_collaborators (sample_module False) plain_outputs 0 = Inr plain_outputs \<and>
   post_process (sample_module False) plain_outputs True
     = (plain_outputs, Some (KeyError ''pred_scores'')) \<and>
   predict_step sample_collaborators (sample_module False) plain_outputs 0 0
     = Inl (KeyError ''pred_scores'') \<and>
   sample_outputs ''anomaly_maps'' \<noteq> None \<and>
   validation_step sample_collaborators (sample_module False) sample_outputs 0 = Inr sample_outputs \<and>
   snd (post_process (sample_module False) sample_outputs True) \<noteq> Some (KeyError ''pred_scores'') \<and>
   predict_step sample_collaborators (sample_module False) sample_outputs 0 0
     \<noteq> Inl (KeyError ''pred_scores'')"
proof -
  have h1: "plain_outputs ''pred_scores'' = None \<and> plain_outputs ''anomaly_maps'' = None"
    and h2: "validation_step sample_collaborators (sample_module False) plain_outputs 0
               = Inr plain_outputs"
    and h3: "sample_outputs ''anomaly_maps'' \<noteq> None"
    and h4: "validation_step sample_collaborators (sample_module False) sample_outputs 0
               = Inr sample_outputs"
    by (simp_all add: plain_outputs_def sample_outputs_def sample_collaborators_def)
  from label_prediction_key_error
         [of plain_outputs "sample_module False" sample_collaborators plain_outputs 0 0
             "''pred_scores''"]
       label_prediction_key_error
         [of sample_outputs "sample_module False" sample_collaborators sample_outputs 0 0
             "''pred_scores''"]
       h1 h2 h3 h4
  show ?thesis by simp
qed

text \<open>
  C9. \<^verbatim>\<open>test_step\<close> returns what \<^verbatim>\<open>validation_step\<close> returns on the same batch and
  index, with nothing applied to it; \<^verbatim>\<open>validation_step_end\<close> and \<^verbatim>\<open>test_step_end\<close>
  are both \<^verbatim>\<open>_post_process\<close> without label prediction, which leaves the
  predicted-labels key as it found it.
\<close>

theorem test_step_is_validation_step:
  "test_step E self batch idx = validation_step E self batch idx \<and>
   validation_step_end self out = post_process self out False \<and>
   test_step_end self out = post_process self out False \<and>
   fst (post_process self out False) ''pred_labels'' = out ''pred_labels''"
proof -
  have "fst (derive_scores out) ''pred_labels'' = out ''pred_labels''"
    by (rule derive_scores_frame) simp
  then have "fst (post_process self out False) ''pred_labels'' = out ''pred_labels''"
    by (cases "derive_scores out") (auto simp: post_process_def split: option.splits)
  then show ?thesis
    by (simp add: test_step_def validation_step_end_def test_step_end_def)
qed

section \<open>Scores derived from anomaly maps\<close>

lemma reduce_max_Max: "xs \<noteq> [] \<Longrightarrow> reduce_max xs = Max (set xs)"
proof (cases xs)
  case Nil
  assume "xs \<noteq> []"
  with Nil show ?thesis by simp
next
  case (Cons y ys)
  have "fold max ys y = Max (set (y # ys))"
    by (rule Max.set_eq_fold [symmetric])
  with Cons show ?thesis by (simp add: reduce_max_def)
qed

lemma sample_max_batch:
  assumes "shape a = n # rest" and "0 < n" and "0 < prod_list rest"
  shows "sample_max a =
           Inr \<lparr>shape = [n],
                elems = map (\<lambda>i. reduce_max (map (\<lambda>j. elems a ! (i * prod_list rest + j))
                                                [0..<prod_list rest]))
                            [0..<n]\<rparr>"
  using assms
  by (simp add: sample_max_def shape0_def reshape_rows_def max_axis1_def Let_def)

lemma slice_row:
  assumes "Suc i * m \<le> length xs"
  shows "map (\<lambda>j. xs ! (i * m + j)) [0..<m] = take m (drop (i * m) xs)"
proof (rule nth_equalityI)
  from assms show "length (map (\<lambda>j. xs ! (i * m + j)) [0..<m]) = length (take m (drop (i * m) xs))"
    by simp
next
  fix j assume "j < length (map (\<lambda>j. xs ! (i * m + j)) [0..<m])"
  then have j: "j < m" by simp
  with assms show "map (\<lambda>j. xs ! (i * m + j)) [0..<m] ! j = take m (drop (i * m) xs) ! j"
    by simp
qed

lemma sample_fits:
  assumes "i < n" shows "Suc i * m \<le> n * (m::nat)"
proof -
  from assms have "Suc i \<le> n" by simp
  then show ?thesis by (rule mult_le_mono1)
qed

lemma sample_max_slices:
  assumes wf: "wf_tensor a" and sh: "shape a = n # rest" and n: "0 < n" and m: "0 < prod_list rest"
  shows "\<exists>s. sample_max a = Inr s \<and> shape s = [n] \<and> length (elems s) = n \<and>
             (\<forall>i<n. elems s ! i =
                      reduce_max (take (prod_list rest) (drop (i * prod_list rest) (elems a))) \<and>
                    take (prod_list rest) (drop (i * prod_list rest) (elems a)) \<noteq> [])"
proof -
  let ?m = "prod_list rest"
  let ?s = "\<lparr>shape = [n], elems = map (\<lambda>i. reduce_max (map (\<lambda>j. elems a ! (i * ?m + j)) [0..<?m])) [0..<n]\<rparr>"
  have len: "length (elems a) = n * ?m"
    using wf sh by (simp add: wf_tensor_def)
  have "\<forall>i<n. elems ?s ! i = reduce_max (take ?m (drop (i * ?m) (elems a))) \<and>
               take ?m (drop (i * ?m) (elems a)) \<noteq> []"
  proof (intro allI impI)
    fix i assume i: "i < n"
    then have fit: "Suc i * ?m \<le> length (elems a)"
      using len sample_fits [of i n ?m] by simp
    from i have "elems ?s ! i = reduce_max (map (\<lambda>j. elems a ! (i * ?m + j)) [0..<?m])"
      by simp
    also have "\<dots> = reduce_max (take ?m (drop (i * ?m) (elems a)))"
      by (simp only: slice_row [OF fit])
    finally have e: "elems ?s ! i = reduce_max (take ?m (drop (i * ?m) (elems a)))" .
    from fit have "length (take ?m (drop (i * ?m) (elems a))) = ?m" by simp
    with m have "take ?m (drop (i * ?m) (elems a)) \<noteq> []" by auto
    with e show "elems ?s ! i = reduce_max (take ?m (drop (i * ?m) (elems a))) \<and>
                 take ?m (drop (i * ?m) (elems a)) \<noteq> []" by simp
  qed
  moreover have "sample_max a = Inr ?s"
    by (rule sample_max_batch [OF sh n m])
  ultimately show ?thesis by (intro exI [of _ ?s]) simp
qed

lemma of_bool_Max:
  assumes "bs \<noteq> []"
  shows "(of_bool (Max (set bs)) :: real) = Max (set (map of_bool bs))"
proof -
  have "mono (of_bool :: bool \<Rightarrow> real)"
    by (rule monoI) (simp add: le_bool_def)
  then have "(of_bool (Max (set bs)) :: real) = Max (of_bool ` set bs)"
    using assms by (intro mono_Max_commute) simp_all
  then show ?thesis by simp
qed

lemma anomaly_map_max_slices:
  assumes "wf_pyval v" and "shape_of v = Some (n # rest)" and "0 < n" and "0 < prod_list rest"
  shows "\<exists>s. anomaly_map_max v = Inr s \<and> shape_of s = Some [n] \<and> length (scores_of s) = n \<and>
             (\<forall>i<n. scores_of s ! i =
                      Max (set (take (prod_list rest) (drop (i * prod_list rest) (scores_of v)))))"
proof (cases v)
  case (FloatTensor a)
  with assms have "wf_tensor a" "shape a = n # rest" by simp_all
  from sample_max_slices [OF this assms(3,4)] obtain s where
    s: "sample_max a = Inr s" "shape s = [n]" "length (elems s) = n"
       "\<forall>i<n. elems s ! i = reduce_max (take (prod_list rest) (drop (i * prod_list rest) (elems a))) \<and>
               take (prod_list rest) (drop (i * prod_list rest) (elems a)) \<noteq> []"
    by blast
  from s(4) have "\<forall>i<n. elems s ! i = Max (set (take (prod_list rest) (drop (i * prod_list rest) (elems a))))"
    by (simp add: reduce_max_Max)
  with s(1-3) FloatTensor show ?thesis by simp
next
  case (BoolTensor a)
  with assms have "wf_tensor a" "shape a = n # rest" by simp_all
  from sample_max_slices [OF this assms(3,4)] obtain s where
    s: "sample_max a = Inr s" "shape s = [n]" "length (elems s) = n"
       "\<forall>i<n. elems s ! i = reduce_max (take (prod_list rest) (drop (i * prod_list rest) (elems a))) \<and>
               take (prod_list rest) (drop (i * prod_list rest) (elems a)) \<noteq> []"
    by blast
  have "\<forall>i<n. (of_bool (elems s ! i) :: real) =
          Max (set (take (prod_list rest) (drop (i * prod_list rest) (map of_bool (elems a)))))"
  proof (intro allI impI)
    fix i assume "i < n"
    with s(4) have e: "elems s ! i = Max (set (take (prod_list rest) (drop (i * prod_list rest) (elems a))))"
      and ne: "take (prod_list rest) (drop (i * prod_list rest) (elems a)) \<noteq> []"
      by (simp_all add: reduce_max_Max)
    from of_bool_Max [OF ne] e
    show "(of_bool (elems s ! i) :: real) =
          Max (set (take (prod_list rest) (drop (i * prod_list rest) (map of_bool (elems a)))))"
      by (simp only: take_map drop_map)
  qed
  with s(1-3) BoolTensor show ?thesis by simp
next
  case (StrList l)
  with assms show ?thesis by simp
qed

text \<open>
  Where no per-sample maximum exists the library raises before the assignment, and the
  dictionary stays as it was: a 0-dimensional tensor has no \<^verbatim>\<open>shape[0]\<close>, an empty
  batch cannot be reshaped, and an empty map has no maximum.
\<close>

lemma sample_max_degenerate:
  "shape a = [] \<Longrightarrow> sample_max a = Inl IndexError"
  "shape a = 0 # rest \<Longrightarrow> sample_max a = Inl TorchError"
  "shape a = n # rest \<Longrightarrow> 0 < n \<Longrightarrow> prod_list rest = 0 \<Longrightarrow> sample_max a = Inl TorchError"
  by (simp_all add: sample_max_def shape0_def reshape_rows_def max_axis1_def)

lemma derive_scores_raises:
  assumes "out ''pred_scores'' = None" and "out ''anomaly_maps'' = Some v"
      and "anomaly_map_max v = Inl e"
  shows "post_process self out predict_labels = (out, Some e)"
  using assms by (simp add: post_process_def derive_scores_def)

text \<open>
  C4. For a dictionary without scores whose anomaly maps are a well-formed tensor of
  \<open>n > 0\<close> samples with a non-empty map each, \<^verbatim>\<open>_post_process\<close> stores under
  \<^verbatim>\<open>pred_scores\<close> a tensor of shape \<open>[n]\<close> whose \<open>i\<close>-th element is the maximum over
  all elements of the \<open>i\<close>-th map, that is over the \<open>i\<close>-th slice of the row-major
  elements.
\<close>

theorem post_process_derives_scores:
  assumes "out ''pred_scores'' = None" and "out ''anomaly_maps'' = Some v"
      and "wf_pyval v" and "shape_of v = Some (n # rest)" and "0 < n" and "0 < prod_list rest"
  shows "\<exists>s. fst (post_process self out predict_labels) ''pred_scores'' = Some s \<and>
             shape_of s = Some [n] \<and> length (scores_of s) = n \<and>
             (\<forall>i<n. scores_of s ! i =
                      Max (set (take (prod_list rest) (drop (i * prod_list rest) (scores_of v)))))"
proof -
  from anomaly_map_max_slices [OF assms(3-6)] obtain s where
    s: "anomaly_map_max v = Inr s" and
    p: "shape_of s = Some [n]" "length (scores_of s) = n"
       "\<forall>i<n. scores_of s ! i =
                Max (set (take (prod_list rest) (drop (i * prod_list rest) (scores_of v))))"
    by blast
  from assms(1,2) s have d: "derive_scores out = (out(''pred_scores'' \<mapsto> s), None)"
    by (simp add: derive_scores_def)
  have "fst (label_scores self (out(''pred_scores'' \<mapsto> s))) ''pred_scores''
          = (out(''pred_scores'' \<mapsto> s)) ''pred_scores''"
    by (rule label_scores_frame) simp
  with d have "fst (post_process self out predict_labels) ''pred_scores'' = Some s"
    by (simp add: post_process_def)
  with p show ?thesis by blast
qed

theorem post_process_derives_scores_witness:
  "sample_outputs ''pred_scores'' = None \<and>
   sample_outputs ''anomaly_maps'' = Some (FloatTensor sample_maps) \<and>
   wf_pyval (FloatTensor sample_maps) \<and>
   shape_of (FloatTensor sample_maps) = Some [2, 2, 1] \<and>
   (\<exists>s. fst (post_process (sample_module False) sample_outputs False) ''pred_scores'' = Some s \<and>
        shape_of s = Some [2] \<and> scores_of s = [5, 3])"
proof -
  have h1: "sample_outputs ''pred_scores'' = None"
    and h2: "sample_outputs ''anomaly_maps'' = Some (FloatTensor sample_maps)"
    and h3: "wf_pyval (FloatTensor sample_maps)"
    and h4: "shape_of (FloatTensor sample_maps) = Some (2 # [2, 1])"
    and h5: "0 < (2::nat)"
    and h6: "0 < prod_list [2, 1 :: nat]"
    by (simp_all add: sample_outputs_def sample_maps_def wf_tensor_def)
  from post_process_derives_scores [OF h1 h2 h3 h4 h5 h6, of "sample_module False" False]
  obtain s where
    a: "fst (post_process (sample_module False) sample_outputs False) ''pred_scores'' = Some s" and
    b: "shape_of s = Some [2]" and c: "length (scores_of s) = 2" and
    d: "\<forall>i<2. scores_of s ! i =
          Max (set (take (prod_list [2, 1]) (drop (i * prod_list [2, 1])
                                               (scores_of (FloatTensor sample_maps)))))"
    by blast
  from d have "scores_of s ! 0 = 5" and "scores_of s ! 1 = 3"
    by (simp_all add: sample_maps_def)
  with c have "scores_of s = [5, 3]"
    by (intro nth_equalityI) (auto simp: less_Suc_eq numeral_2_eq_2)
  with a b h1 h2 h3 h4 show ?thesis by simp
qed

end
